theory Spec2Isabelle
  imports Complex_Main
begin

section \<open>Heartwise ECG analyzer: a shallow embedding of \<open>ecg_analyzer.py\<close>\<close>

text \<open>
  The class \<open>ECGAnalyzer\<close> of \<open>src/ml-service/ecg_analyzer.py\<close> is translated method by
  method. Conventions of the embedding:

  \<^item> Python and numpy floats are the type \<open>real\<close>: arithmetic is exact, there is no
    rounding error, no \<open>nan\<close> and no \<open>inf\<close>. Division by zero is \<open>0\<close> in HOL; the places
    where the source would divide by zero are either guarded in the source itself, or
    raise, or are unreachable, and each is discussed where it occurs.
  \<^item> An exception is a value of type \<open>exn\<close>; a method that may raise returns
    \<open>exn + 'a\<close> with \<open>Inl\<close> for the raise.
  \<^item> The methods call numpy and scipy. Their list operations (\<open>np.mean\<close>, \<open>np.std\<close>,
    \<open>np.diff\<close>, \<open>np.convolve\<close>, \<open>find_peaks\<close>) and the argument checks of
    \<open>signal.butter\<close> and \<open>signal.filtfilt\<close> are written out as the libraries document and
    implement them. The numeric kernel of the Butterworth band-pass (the coefficient design
    and the forward-backward recursion) is a parameter of the embedding: every theorem holds
    for every such kernel unless it says otherwise.
\<close>

subsection \<open>Exceptions and Python built-ins\<close>

datatype exn = ValueError | ZeroDivisionError

text \<open>\<open>int(x)\<close> on a float truncates towards zero.\<close>

definition py_int :: "real \<Rightarrow> int" where
  "py_int x = (if 0 \<le> x then \<lfloor>x\<rfloor> else \<lceil>x\<rceil>)"

text \<open>
  \<open>round(x, ndigits)\<close> rounds to the nearest multiple of \<open>10 ^ -ndigits\<close>, a tie going to
  the even neighbour (both the built-in on \<open>float\<close> and numpy's on \<open>float64\<close>).
\<close>

definition rint :: "real \<Rightarrow> int" where
  "rint x =
     (let f = \<lfloor>x\<rfloor>; r = x - of_int f
      in if r < 1 / 2 then f else if 1 / 2 < r then f + 1
         else if even f then f else f + 1)"

definition py_round :: "real \<Rightarrow> nat \<Rightarrow> real" where
  "py_round x ndigits = of_int (rint (x * 10 ^ ndigits)) / 10 ^ ndigits"

text \<open>The substring test \<open>s in t\<close> on strings.\<close>

fun str_in :: "string \<Rightarrow> string \<Rightarrow> bool" where
  "str_in s [] = (s = [])"
| "str_in s (c # cs) = (take (length s) (c # cs) = s \<or> str_in s cs)"

text \<open>
  An f-string is kept as its parts, so that no float has to be printed: a literal piece, or
  a number with its format (\<open>:.0f\<close>, \<open>:.1f\<close>, or the default of an integer).
\<close>

datatype fpart = Lit string | Fmt0f real | Fmt1f real | FmtInt int

subsection \<open>numpy on one-dimensional arrays\<close>

definition np_mean :: "real list \<Rightarrow> real" where
  "np_mean xs = sum_list xs / real (length xs)"

text \<open>\<open>np.std\<close> with its default \<open>ddof = 0\<close>: the root of the mean squared deviation.\<close>

definition np_std :: "real list \<Rightarrow> real" where
  "np_std xs = sqrt (np_mean (map (\<lambda>x. \<bar>x - np_mean xs\<bar>\<^sup>2) xs))"

definition np_diff :: "real list \<Rightarrow> real list" where
  "np_diff xs = map (\<lambda>(a, b). b - a) (zip xs (tl xs))"

text \<open>
  \<open>np.max\<close> and \<open>np.min\<close> raise \<open>ValueError\<close> on an empty array; \<open>amax\<close> and \<open>amin\<close>
  are their values on a non-empty one.
\<close>

definition amax :: "real list \<Rightarrow> real" where
  "amax xs = fold max (tl xs) (hd xs)"

definition amin :: "real list \<Rightarrow> real" where
  "amin xs = fold min (tl xs) (hd xs)"

definition np_max :: "real list \<Rightarrow> exn + real" where
  "np_max xs = (if xs = [] then Inl ValueError else Inr (amax xs))"

definition np_min :: "real list \<Rightarrow> exn + real" where
  "np_min xs = (if xs = [] then Inl ValueError else Inr (amin xs))"

text \<open>\<open>np.sum(mask)\<close> of a boolean array counts its true entries.\<close>

definition count_true :: "('a \<Rightarrow> bool) \<Rightarrow> 'a list \<Rightarrow> nat" where
  "count_true p xs = length (filter p xs)"

subsection \<open>The rule engine: \<open>detect_arrhythmias\<close>\<close>

record abnormality =
  ab_type :: string
  severity :: string
  description :: "fpart list"
  recommendation :: string

text \<open>
  The three local variables that the rules of \<open>detect_arrhythmias\<close> read and assign, in
  the order in which the method returns them.
\<close>

record rule_state =
  st_classification :: string
  st_abnormalities :: "abnormality list"
  st_risk_level :: string

definition initial_state :: rule_state where
  "initial_state =
     \<lparr>st_classification = ''Normal Sinus Rhythm'', st_abnormalities = [],
      st_risk_level = ''Low''\<rparr>"

definition append_finding :: "abnormality \<Rightarrow> rule_state \<Rightarrow> rule_state" where
  "append_finding a st = st\<lparr>st_abnormalities := st_abnormalities st @ [a]\<rparr>"

text \<open>\<open>coefficient_of_variation\<close>, source line 186.\<close>

definition coefficient_of_variation :: "real list \<Rightarrow> real" where
  "coefficient_of_variation rr =
     (if np_mean rr > 0 then (np_std rr / np_mean rr) * 100 else 0)"

text \<open>Rules 1 and 2 (source lines 188 to 235): bradycardia, else tachycardia.\<close>

definition bradycardia_finding :: "real \<Rightarrow> abnormality" where
  "bradycardia_finding heart_rate =
     \<lparr>ab_type = ''Sinus Bradycardia'',
      severity = (if heart_rate < 40 then ''High'' else ''Medium''),
      description =
        (if heart_rate < 40
         then [Lit ''Severe Bradycardia: Heart rate '', Fmt0f heart_rate,
               Lit '' BPM is critically low'']
         else [Lit ''Bradycardia: Heart rate '', Fmt0f heart_rate,
               Lit '' BPM is below normal (60 BPM)'']),
      recommendation =
        ''Monitor for symptoms like dizziness or fatigue. Consult cardiologist if persistent.''\<rparr>"

definition ventricular_finding :: abnormality where
  "ventricular_finding =
     \<lparr>ab_type = ''Ventricular Tachycardia'', severity = ''Critical'',
      description = [Lit ''Fast heart rate with irregular rhythm - medical emergency''],
      recommendation = ''SEEK IMMEDIATE MEDICAL ATTENTION''\<rparr>"

definition tachycardia_finding :: "real \<Rightarrow> abnormality" where
  "tachycardia_finding heart_rate =
     \<lparr>ab_type = ''Sinus Tachycardia'',
      severity = (if heart_rate > 150 then ''High'' else ''Medium''),
      description =
        (if heart_rate > 150
         then [Lit ''Severe Tachycardia: Heart rate '', Fmt0f heart_rate,
               Lit '' BPM is critically high'']
         else [Lit ''Tachycardia: Heart rate '', Fmt0f heart_rate,
               Lit '' BPM is above normal (100 BPM)'']),
      recommendation =
        ''May be caused by exercise, stress, fever, or caffeine. Rest and monitor.''\<rparr>"

definition rule_rate :: "real \<Rightarrow> real \<Rightarrow> rule_state \<Rightarrow> rule_state" where
  "rule_rate heart_rate cv st =
     (if heart_rate < 60 then
        (let st1 = st\<lparr>st_risk_level := (if heart_rate < 40 then ''High'' else ''Medium'')\<rparr>;
             st2 = append_finding (bradycardia_finding heart_rate) st1
         in st2\<lparr>st_classification := ''Sinus Bradycardia''\<rparr>)
      else if heart_rate > 100 then
        (let st1 =
               (if heart_rate > 150 then
                  (let s = st\<lparr>st_risk_level := ''High''\<rparr>
                   in if cv > 15
                      then append_finding ventricular_finding
                             (s\<lparr>st_classification := ''Ventricular Tachycardia (Suspected)''\<rparr>)
                      else s\<lparr>st_classification := ''Sinus Tachycardia''\<rparr>)
                else st\<lparr>st_risk_level := ''Medium'',
                        st_classification := ''Sinus Tachycardia''\<rparr>)
         in if st_classification st1 = ''Sinus Tachycardia''
            then append_finding (tachycardia_finding heart_rate) st1
            else st1)
      else st)"

text \<open>Rule 3 (source lines 238 to 261): atrial fibrillation, else irregular rhythm.\<close>

definition large_differences :: "real list \<Rightarrow> nat" where
  "large_differences rr = count_true (\<lambda>d. \<bar>d\<bar> > 0.12) (np_diff rr)"

definition afib_finding :: "real \<Rightarrow> abnormality" where
  "afib_finding cv =
     \<lparr>ab_type = ''Atrial Fibrillation'', severity = ''High'',
      description =
        [Lit ''Highly irregular R-R intervals (CV: '', Fmt1f cv,
         Lit ''%) suggests Atrial Fibrillation''],
      recommendation =
        ''AFib increases stroke risk. Consult cardiologist for anticoagulation therapy.''\<rparr>"

definition irregular_finding :: "real \<Rightarrow> abnormality" where
  "irregular_finding cv =
     \<lparr>ab_type = ''Irregular Rhythm'', severity = ''Medium'',
      description =
        [Lit ''Moderate rhythm irregularity detected (CV: '', Fmt1f cv, Lit ''%)''],
      recommendation =
        ''Monitor for pattern. Could be premature beats or sinus arrhythmia.''\<rparr>"

definition rule_afib :: "real list \<Rightarrow> real \<Rightarrow> rule_state \<Rightarrow> rule_state" where
  "rule_afib rr cv st =
     (if cv > 20 then
        (if real (large_differences rr) > real (length rr) * 0.3 then
           (append_finding (afib_finding cv) st)
             \<lparr>st_classification := ''Atrial Fibrillation (Suspected)'',
              st_risk_level := ''High''\<rparr>
         else
           (let st1 = append_finding (irregular_finding cv) st;
                st2 = (if st_classification st1 = ''Normal Sinus Rhythm''
                       then st1\<lparr>st_classification := ''Sinus Arrhythmia''\<rparr> else st1)
            in st2\<lparr>st_risk_level := ''Medium''\<rparr>))
      else st)"

text \<open>Rule 4 (source lines 265 to 280): premature ventricular contractions.\<close>

definition pvc_count :: "real list \<Rightarrow> nat" where
  "pvc_count rr = count_true (\<lambda>x. \<bar>x - np_mean rr\<bar> > 2 * np_std rr) rr"

definition pvc_percentage :: "real list \<Rightarrow> real" where
  "pvc_percentage rr = (real (pvc_count rr) / real (length rr)) * 100"

definition pvc_finding :: "real list \<Rightarrow> abnormality" where
  "pvc_finding rr =
     \<lparr>ab_type = ''Premature Ventricular Contractions'', severity = ''Medium'',
      description =
        [Lit ''Frequent PVCs detected ('', FmtInt (int (pvc_count rr)), Lit '' beats, '',
         Fmt1f (pvc_percentage rr), Lit ''%)''],
      recommendation =
        ''Frequent PVCs may require evaluation. Avoid caffeine and stress.''\<rparr>"

definition rule_pvc :: "real list \<Rightarrow> rule_state \<Rightarrow> rule_state" where
  "rule_pvc rr st =
     (if length rr > 3 then
        (if pvc_count rr > 0 then
           (if pvc_percentage rr > 10 then
              (let st1 = append_finding (pvc_finding rr) st;
                   st2 = (if str_in ''Normal'' (st_classification st1)
                          then st1\<lparr>st_classification := ''Premature Ventricular Contractions''\<rparr>
                          else st1)
               in st2\<lparr>st_risk_level := ''Medium''\<rparr>)
            else st)
         else st)
      else st)"

text \<open>Rule 5 (source lines 283 to 291): the default when no finding was appended.\<close>

definition normal_finding :: "real \<Rightarrow> abnormality" where
  "normal_finding heart_rate =
     \<lparr>ab_type = ''Normal'', severity = ''None'',
      description = [Lit ''Heart rate '', Fmt0f heart_rate, Lit '' BPM with regular rhythm''],
      recommendation = ''Heart rhythm appears normal. Continue healthy lifestyle.''\<rparr>"

definition rule_normal :: "real \<Rightarrow> rule_state \<Rightarrow> rule_state" where
  "rule_normal heart_rate st =
     (if length (st_abnormalities st) = 0 then
        (append_finding (normal_finding heart_rate) st)
          \<lparr>st_classification := ''Normal Sinus Rhythm'', st_risk_level := ''Low''\<rparr>
      else st)"

text \<open>The state of the three locals after rules 1 and 2, after rule 3, and after rule 4.\<close>

definition after_rate :: "real \<Rightarrow> real list \<Rightarrow> rule_state" where
  "after_rate heart_rate rr =
     rule_rate heart_rate (coefficient_of_variation rr) initial_state"

definition after_afib :: "real \<Rightarrow> real list \<Rightarrow> rule_state" where
  "after_afib heart_rate rr =
     rule_afib rr (coefficient_of_variation rr) (after_rate heart_rate rr)"

definition after_pvc :: "real \<Rightarrow> real list \<Rightarrow> rule_state" where
  "after_pvc heart_rate rr = rule_pvc rr (after_afib heart_rate rr)"

definition after_normal :: "real \<Rightarrow> real list \<Rightarrow> rule_state" where
  "after_normal heart_rate rr = rule_normal heart_rate (after_pvc heart_rate rr)"

definition detect_arrhythmias :: "real \<Rightarrow> real list \<Rightarrow> string \<times> abnormality list \<times> string" where
  "detect_arrhythmias heart_rate rr_intervals =
     (if length rr_intervals < 2 then (''Insufficient Data'', [], ''Unknown'')
      else
        (let st = after_normal heart_rate rr_intervals
         in (st_classification st, st_abnormalities st, st_risk_level st)))"

subsection \<open>Heart rate and heart-rate variability\<close>

text \<open>
  \<open>calculate_heart_rate\<close>, source lines 130 to 141. \<open>r_peaks\<close> is an array of sample
  indices. The quotient by \<open>sample_rate\<close> is numpy's: at \<open>sample_rate = 0\<close> it is \<open>inf\<close>
  there and \<open>0\<close> here, a case \<open>analyze\<close> never reaches (the filter design raises first).
\<close>

definition calculate_heart_rate :: "nat list \<Rightarrow> int \<Rightarrow> real \<times> real list" where
  "calculate_heart_rate r_peaks sample_rate =
     (if length r_peaks < 2 then (0, [])
      else
        (let rr_intervals =
               map (\<lambda>d. d / real_of_int sample_rate) (np_diff (map real r_peaks));
             heart_rate = 60 / np_mean rr_intervals
         in (heart_rate, rr_intervals)))"

record hrv_metrics =
  SDNN :: real
  RMSSD :: real
  pNN50 :: real

text \<open>\<open>calculate_hrv\<close>, source lines 143 to 168.\<close>

definition calculate_hrv :: "real list \<Rightarrow> hrv_metrics" where
  "calculate_hrv rr_intervals =
     (if length rr_intervals < 2 then \<lparr>SDNN = 0, RMSSD = 0, pNN50 = 0\<rparr>
      else
        (let rr_ms = map (\<lambda>x. x * 1000) rr_intervals;
             sdnn = np_std rr_ms;
             diff_rr = np_diff rr_ms;
             rmssd = sqrt (np_mean (map (\<lambda>d. d\<^sup>2) diff_rr));
             nn50 = count_true (\<lambda>d. \<bar>d\<bar> > 50) diff_rr;
             pnn50 = (if length diff_rr > 0
                      then (real nn50 / real (length diff_rr)) * 100 else 0)
         in \<lparr>SDNN = py_round sdnn 2, RMSSD = py_round rmssd 2,
             pNN50 = py_round pnn50 2\<rparr>))"

subsection \<open>Signal quality and recommendations\<close>

record signal_quality =
  quality :: string
  score :: real
  std_deviation :: real
  signal_range :: real

text \<open>
  \<open>_assess_signal_quality\<close>, source lines 369 to 389. On an empty array \<open>np.std\<close> is
  \<open>nan\<close> with a warning and \<open>np.max\<close> raises.
\<close>

definition assess_signal_quality :: "real list \<Rightarrow> exn + signal_quality" where
  "assess_signal_quality signal_array =
     (let signal_std = np_std signal_array in
      case np_max signal_array of Inl e \<Rightarrow> Inl e
      | Inr hi \<Rightarrow>
          (case np_min signal_array of Inl e \<Rightarrow> Inl e
           | Inr lo \<Rightarrow>
               (let signal_range = hi - lo;
                    (q, sc) =
                      (if signal_std < 10 \<or> signal_range < 50 then (''Poor'', 0.3)
                       else if signal_std < 50 \<or> signal_range < 200 then (''Fair'', 0.6)
                       else (''Good'', 0.9))
                in Inr \<lparr>quality = q, score = sc,
                        std_deviation = py_round signal_std 2,
                        signal_range = py_round signal_range 2\<rparr>)))"

text \<open>
  \<open>_generate_recommendations\<close>, source lines 391 to 418. Every string of the source
  starts with a pictograph and a blank, which are left out here; the texts are otherwise
  the source's.
\<close>

definition generate_recommendations :: "string \<Rightarrow> string \<Rightarrow> real \<Rightarrow> string list" where
  "generate_recommendations classification risk_level heart_rate =
     (if risk_level = ''Critical'' \<or> risk_level = ''High''
      then [''IMPORTANT: Consult a cardiologist as soon as possible'',
            ''Consider wearing a continuous heart monitor'']
      else []) @
     (if str_in ''Tachycardia'' classification
      then [''Practice relaxation techniques and reduce stress'',
            ''Limit caffeine and stimulant intake'',
            ''Review medications with your doctor'']
      else []) @
     (if str_in ''Bradycardia'' classification
      then [''Monitor for symptoms like dizziness or fatigue'',
            ''Discuss exercise tolerance with your doctor'']
      else []) @
     (if str_in ''Fibrillation'' classification
      then [''Anticoagulation therapy may be needed - consult doctor'',
            ''Regular ECG monitoring recommended'',
            ''Avoid alcohol and excessive caffeine'']
      else []) @
     (if classification = ''Normal Sinus Rhythm''
      then [''Heart rhythm is normal'',
            ''Continue regular exercise and healthy diet'',
            ''Monitor periodically for baseline comparison'']
      else [])"

subsection \<open>The input and the preprocessor\<close>

text \<open>
  One entry of \<open>ecg_signal\<close> as it arrives from the JSON body: a number, or a string that
  is not the text of a number, on which \<open>np.array(ecg_signal, dtype=float)\<close> raises
  \<open>ValueError\<close>.
\<close>

datatype sample = Num real | NotNumeric

fun np_array :: "sample list \<Rightarrow> exn + real list" where
  "np_array [] = Inr []"
| "np_array (Num v # xs) = (case np_array xs of Inl e \<Rightarrow> Inl e | Inr vs \<Rightarrow> Inr (v # vs))"
| "np_array (NotNumeric # xs) = Inl ValueError"

text \<open>
  \<open>signal.butter(2, [low, high], btype='band')\<close> designs a digital filter and raises
  \<open>ValueError\<close> unless both critical frequencies lie strictly between 0 and 1 and the
  first is below the second. Its result \<open>(b, a)\<close> has \<open>2 * 2 + 1 = 5\<close> coefficients each.
\<close>

definition butter_accepts :: "real \<Rightarrow> real \<Rightarrow> bool" where
  "butter_accepts low high = (0 < low \<and> low < 1 \<and> 0 < high \<and> high < 1 \<and> low < high)"

text \<open>
  \<open>signal.filtfilt(b, a, x)\<close> pads \<open>x\<close> by \<open>padlen = 3 * max(len(a), len(b))\<close> samples at
  each end and raises \<open>ValueError\<close> unless \<open>len(x) > padlen\<close>.
\<close>

definition filtfilt_padlen :: nat where
  "filtfilt_padlen = 3 * max 5 5"

text \<open>
  The numeric kernel: \<open>F low high x\<close> stands for
  \<open>filtfilt(*butter(2, [low, high], btype='band'), x)\<close> on an input that both accept.
\<close>

type_synonym bandpass = "real \<Rightarrow> real \<Rightarrow> real list \<Rightarrow> real list"

text \<open>
  \<open>preprocess\<close>, source lines 84 to 104. \<open>sample_rate\<close> is a Python \<open>int\<close>, so
  \<open>5 / nyquist\<close> raises \<open>ZeroDivisionError\<close> at \<open>sample_rate = 0\<close>. (\<open>np.mean\<close> of an
  empty array is \<open>nan\<close> with a warning, not a raise; \<open>filtfilt\<close> raises on it below.)
\<close>

definition preprocess :: "bandpass \<Rightarrow> sample list \<Rightarrow> int \<Rightarrow> exn + real list" where
  "preprocess F ecg_signal sample_rate =
     (case np_array ecg_signal of Inl e \<Rightarrow> Inl e
      | Inr signal_array \<Rightarrow>
          (let centred = map (\<lambda>x. x - np_mean signal_array) signal_array in
           if sample_rate = 0 then Inl ZeroDivisionError
           else
             (let nyquist = real_of_int sample_rate / 2;
                  low = 5 / nyquist;
                  high = 15 / nyquist
              in if \<not> butter_accepts low high then Inl ValueError
                 else if length centred \<le> filtfilt_padlen then Inl ValueError
                 else Inr (F low high centred))))"

subsection \<open>\<open>np.convolve\<close> and \<open>scipy.signal.find_peaks\<close>\<close>

text \<open>
  \<open>np.convolve(a, v, mode='same')\<close>: the full discrete convolution has
  \<open>len(a) + len(v) - 1\<close> entries; mode \<open>same\<close> returns the \<open>max(len(a), len(v))\<close> central
  ones, starting at entry \<open>(min(len(a), len(v)) - 1) // 2\<close>. An empty argument raises
  \<open>ValueError\<close>.
\<close>

definition convolve_full :: "real list \<Rightarrow> real list \<Rightarrow> real list" where
  "convolve_full a v =
     map (\<lambda>k. \<Sum>m\<leftarrow>[0..<length a].
                 if m \<le> k \<and> k - m < length v then a ! m * v ! (k - m) else 0)
         [0..<length a + length v - 1]"

definition np_convolve_same :: "real list \<Rightarrow> real list \<Rightarrow> exn + real list" where
  "np_convolve_same a v =
     (if a = [] \<or> v = [] then Inl ValueError
      else Inr (take (max (length a) (length v))
                  (drop ((min (length a) (length v) - 1) div 2) (convolve_full a v))))"

text \<open>
  \<open>_local_maxima_1d\<close> of scipy: a sample is a local maximum when the signal rises
  strictly into it and falls strictly after it; of a flat top the middle index (rounded
  down) is reported. \<open>plateau_end\<close> is the inner loop that walks to the end of a flat top,
  \<open>local_maxima_from\<close> the outer loop from index \<open>i\<close> on; the first and the last sample
  are never maxima.
\<close>

function plateau_end :: "real list \<Rightarrow> nat \<Rightarrow> nat \<Rightarrow> nat" where
  "plateau_end x i i_ahead =
     (if i_ahead < length x - 1 \<and> x ! i_ahead = x ! i
      then plateau_end x i (i_ahead + 1) else i_ahead)"
  by pat_completeness auto
termination
  by (relation "measure (\<lambda>(x, i, i_ahead). length x - 1 - i_ahead)") auto

declare plateau_end.simps [simp del]

lemma plateau_end_ge: "i_ahead \<le> plateau_end x i i_ahead"
proof (induction x i i_ahead rule: plateau_end.induct)
  case (1 x i i_ahead)
  show ?case
  proof (cases "i_ahead < length x - 1 \<and> x ! i_ahead = x ! i")
    case True
    with 1 have "i_ahead + 1 \<le> plateau_end x i (i_ahead + 1)" by simp
    moreover from True have "plateau_end x i i_ahead = plateau_end x i (i_ahead + 1)"
      by (subst plateau_end.simps) simp
    ultimately show ?thesis by simp
  next
    case False
    then have "plateau_end x i i_ahead = i_ahead"
      by (subst plateau_end.simps) auto
    then show ?thesis by simp
  qed
qed

function local_maxima_from :: "real list \<Rightarrow> nat \<Rightarrow> nat list" where
  "local_maxima_from x i =
     (if i < length x - 1 then
        (if x ! (i - 1) < x ! i then
           (let i_ahead = plateau_end x i (i + 1) in
            if x ! i_ahead < x ! i
            then ((i + (i_ahead - 1)) div 2) # local_maxima_from x (i_ahead + 1)
            else local_maxima_from x (i + 1))
         else local_maxima_from x (i + 1))
      else [])"
  by pat_completeness auto
termination
proof (relation "measure (\<lambda>(x, i). length x - i)", goal_cases)
  case 1
  show ?case by simp
next
  case (2 x i i_ahead)
  have "i + 1 \<le> plateau_end x i (i + 1)" by (rule plateau_end_ge)
  with 2 show ?case by auto
next
  case (3 x i i_ahead)
  then show ?case by simp
next
  case (4 x i)
  then show ?case by simp
qed

declare local_maxima_from.simps [simp del]

definition local_maxima_1d :: "real list \<Rightarrow> nat list" where
  "local_maxima_1d x = local_maxima_from x 1"


text \<open>
  \<open>_select_by_peak_distance\<close> of scipy: the peaks are visited from the highest priority
  to the lowest; a peak that is still kept clears the flag of every peak closer than
  \<open>distance\<close> on its left (\<open>clear_left\<close>, counting \<open>k\<close> down from \<open>j - 1\<close>) and on its right
  (\<open>clear_right\<close>, counting up from \<open>j + 1\<close>). The order of visit is the reverse of
  \<open>np.argsort(priority)\<close>; numpy does not fix the order of equal priorities, and
  \<open>np_argsort\<close> takes the stable one.
\<close>

fun clear_left :: "nat list \<Rightarrow> nat \<Rightarrow> nat \<Rightarrow> nat \<Rightarrow> bool list \<Rightarrow> bool list" where
  "clear_left peaks distance j 0 keep = keep"
| "clear_left peaks distance j (Suc k) keep =
     (if int (peaks ! j) - int (peaks ! k) < int distance
      then clear_left peaks distance j k (keep[k := False]) else keep)"

function clear_right :: "nat list \<Rightarrow> nat \<Rightarrow> nat \<Rightarrow> nat \<Rightarrow> bool list \<Rightarrow> bool list" where
  "clear_right peaks distance j k keep =
     (if k < length peaks \<and> int (peaks ! k) - int (peaks ! j) < int distance
      then clear_right peaks distance j (k + 1) (keep[k := False]) else keep)"
  by pat_completeness auto
termination
  by (relation "measure (\<lambda>(peaks, distance, j, k, keep). length peaks - k)") auto

declare clear_right.simps [simp del]

fun select_loop :: "nat list \<Rightarrow> nat \<Rightarrow> nat list \<Rightarrow> bool list \<Rightarrow> bool list" where
  "select_loop peaks distance [] keep = keep"
| "select_loop peaks distance (j # js) keep =
     (if \<not> keep ! j then select_loop peaks distance js keep
      else select_loop peaks distance js
             (clear_right peaks distance j (j + 1) (clear_left peaks distance j j keep)))"

definition np_argsort :: "real list \<Rightarrow> nat list" where
  "np_argsort xs = sort_key (\<lambda>i. xs ! i) [0..<length xs]"

definition select_by_peak_distance :: "nat list \<Rightarrow> real list \<Rightarrow> nat \<Rightarrow> bool list" where
  "select_by_peak_distance peaks priority distance =
     select_loop peaks distance (rev (np_argsort priority)) (replicate (length peaks) True)"

text \<open>Indexing with a boolean mask, \<open>peaks[keep]\<close>.\<close>

definition np_mask :: "'a list \<Rightarrow> bool list \<Rightarrow> 'a list" where
  "np_mask xs keep = map fst (filter snd (zip xs keep))"

text \<open>
  \<open>find_peaks(x, height=h, distance=d)\<close>: \<open>ValueError\<close> when \<open>d < 1\<close>; otherwise the local
  maxima, of which those of height at least \<open>h\<close> are kept, and of these the ones selected by
  distance.
\<close>

definition find_peaks :: "real list \<Rightarrow> real \<Rightarrow> int \<Rightarrow> exn + nat list" where
  "find_peaks x height distance =
     (if distance < 1 then Inl ValueError
      else
        (let maxima = local_maxima_1d x;
             peaks = filter (\<lambda>p. height \<le> x ! p) maxima;
             keep = select_by_peak_distance peaks (map (\<lambda>p. x ! p) peaks) (nat distance)
         in Inr (np_mask peaks keep)))"

subsection \<open>The QRS detector\<close>

text \<open>
  \<open>np.ones(n) / n\<close>: \<open>np.ones\<close> raises \<open>ValueError\<close> on a negative size; at \<open>n = 0\<close> the
  array is empty.
\<close>

definition np_ones_over :: "int \<Rightarrow> exn + real list" where
  "np_ones_over n =
     (if n < 0 then Inl ValueError else Inr (replicate (nat n) (1 / real_of_int n)))"

text \<open>\<open>detect_qrs_pan_tompkins\<close>, source lines 106 to 128.\<close>

definition detect_qrs_pan_tompkins :: "bandpass \<Rightarrow> sample list \<Rightarrow> int \<Rightarrow> exn + nat list" where
  "detect_qrs_pan_tompkins F ecg_signal sample_rate =
     (case preprocess F ecg_signal sample_rate of Inl e \<Rightarrow> Inl e
      | Inr filtered \<Rightarrow>
          (let diff = np_diff filtered;
               squared = map (\<lambda>d. d\<^sup>2) diff;
               window_size = py_int (0.15 * real_of_int sample_rate)
           in case np_ones_over window_size of Inl e \<Rightarrow> Inl e
              | Inr window \<Rightarrow>
                  (case np_convolve_same squared window of Inl e \<Rightarrow> Inl e
                   | Inr integrated \<Rightarrow>
                       (case np_max integrated of Inl e \<Rightarrow> Inl e
                        | Inr peak_value \<Rightarrow>
                            find_peaks integrated (0.3 * peak_value)
                              (py_int (0.2 * real_of_int sample_rate))))))"

subsection \<open>The orchestrator: \<open>analyze\<close>\<close>

record heart_rate_range =
  hr_min :: real
  hr_max :: real

text \<open>
  The dictionary under \<open>'details'\<close>. The keys that only one of the two returned shapes
  has are optional: \<open>error\<close> exists in the degraded record only, where it holds \<open>str(e)\<close>
  of the exception caught (kept as the exception itself); \<open>heartRateRange\<close>, \<open>qrsCount\<close>,
  \<open>hrv\<close> and \<open>signalQuality\<close> exist in the regular record only.
\<close>

record details =
  error :: "exn option"
  heartRate :: real
  heartRateRange :: "heart_rate_range option"
  rhythm :: string
  qrsCount :: "nat option"
  hrv :: "hrv_metrics option"
  abnormalities :: "abnormality list"
  signalQuality :: "signal_quality option"

record analysis_result =
  classification :: string
  confidence :: real
  risk_level :: string
  details :: details
  analysis_type :: string
  recommendations :: "string list option"

text \<open>The body of the \<open>try\<close> block, source lines 301 to 352.\<close>

definition analyze_body :: "bandpass \<Rightarrow> sample list \<Rightarrow> int \<Rightarrow> exn + analysis_result" where
  "analyze_body F ecg_signal sample_rate =
     (case np_array ecg_signal of Inl e \<Rightarrow> Inl e
      | Inr signal_array \<Rightarrow>
     (case assess_signal_quality signal_array of Inl e \<Rightarrow> Inl e
      | Inr signal_quality \<Rightarrow>
     (case detect_qrs_pan_tompkins F ecg_signal sample_rate of Inl e \<Rightarrow> Inl e
      | Inr r_peaks \<Rightarrow>
         (let (heart_rate, rr_intervals) = calculate_heart_rate r_peaks sample_rate;
              hrv_metrics = calculate_hrv rr_intervals;
              (classification, abnormalities, risk_level) =
                 detect_arrhythmias heart_rate rr_intervals;
              confidence =
                (if quality signal_quality = ''Good'' \<and> length r_peaks > 10
                 then 0.85 + (real (min (length r_peaks) 50) / 50) * 0.15
                 else if quality signal_quality = ''Fair'' \<and> length r_peaks > 5
                 then 0.65 + (real (min (length r_peaks) 50) / 50) * 0.20
                 else 0.50);
              rhythm =
                (if length rr_intervals > 0 then
                   (let rr_std = np_std rr_intervals;
                        rr_mean = np_mean rr_intervals;
                        cv = (if rr_mean > 0 then (rr_std / rr_mean) * 100 else 100)
                    in if cv < 10 then ''Regular'' else ''Irregular'')
                 else ''Unknown'')
          in Inr \<lparr>classification = classification,
                  confidence = py_round confidence 3,
                  risk_level = risk_level,
                  details =
                    \<lparr>error = None,
                     heartRate = py_round heart_rate 1,
                     heartRateRange =
                       Some \<lparr>hr_min = (if length rr_intervals > 0
                                       then py_round (60 / amax rr_intervals) 1 else 0),
                             hr_max = (if length rr_intervals > 0
                                       then py_round (60 / amin rr_intervals) 1 else 0)\<rparr>,
                     rhythm = rhythm,
                     qrsCount = Some (length r_peaks),
                     hrv = Some hrv_metrics,
                     abnormalities = abnormalities,
                     signalQuality = Some signal_quality\<rparr>,
                  analysis_type = ''hybrid_ml_enhanced'',
                  recommendations =
                    Some (generate_recommendations classification risk_level heart_rate)\<rparr>))))"

text \<open>The record built by the \<open>except Exception\<close> handler, source lines 354 to 367.\<close>

definition error_result :: "exn \<Rightarrow> analysis_result" where
  "error_result e =
     \<lparr>classification = ''Analysis Error'',
      confidence = 0,
      risk_level = ''Unknown'',
      details =
        \<lparr>error = Some e, heartRate = 0, heartRateRange = None, rhythm = ''Unknown'',
         qrsCount = None, hrv = None, abnormalities = [], signalQuality = None\<rparr>,
      analysis_type = ''error'',
      recommendations = None\<rparr>"

text \<open>\<open>analyze\<close>, source lines 295 to 367: the body, and the handler around it.\<close>

definition analyze :: "bandpass \<Rightarrow> sample list \<Rightarrow> int \<Rightarrow> analysis_result" where
  "analyze F ecg_signal sample_rate =
     (case analyze_body F ecg_signal sample_rate of
        Inl e \<Rightarrow> error_result e
      | Inr r \<Rightarrow> r)"

section \<open>Reference notions and sample inputs\<close>

text \<open>
  The notions in which the specification states its properties, written from its words,
  and the inputs at which the properties are evaluated below.
\<close>

text \<open>The order of the risk levels: \<open>Low\<close>, \<open>Medium\<close>, \<open>High\<close>, \<open>Critical\<close>.\<close>

definition risk_rank :: "string \<Rightarrow> nat" where
  "risk_rank l =
     (if l = ''Low'' then 1 else if l = ''Medium'' then 2 else if l = ''High'' then 3
      else if l = ''Critical'' then 4 else 0)"

text \<open>
  The three variability measures as the specification words them: the population
  standard deviation, the root mean square, and the percentage of the values whose
  magnitude exceeds a bound, of RR intervals taken in milliseconds and of their
  successive differences.
\<close>

definition in_milliseconds :: "real list \<Rightarrow> real list" where
  "in_milliseconds rr = map (\<lambda>x. 1000 * x) rr"

definition population_sd :: "real list \<Rightarrow> real" where
  "population_sd xs =
     sqrt ((\<Sum>x\<leftarrow>xs. (x - sum_list xs / real (length xs))\<^sup>2) / real (length xs))"

definition successive_differences :: "real list \<Rightarrow> real list" where
  "successive_differences xs = map (\<lambda>i. xs ! (i + 1) - xs ! i) [0..<length xs - 1]"

definition root_mean_square :: "real list \<Rightarrow> real" where
  "root_mean_square xs = sqrt ((\<Sum>x\<leftarrow>xs. x\<^sup>2) / real (length xs))"

definition percent_exceeding :: "real \<Rightarrow> real list \<Rightarrow> real" where
  "percent_exceeding t ds =
     100 * real (length (filter (\<lambda>d. \<bar>d\<bar> > t) ds)) / real (length ds)"

text \<open>
  What the theorems on flat signals ask of the numeric kernel: the filtered zero signal
  is the zero signal. It holds of \<open>filtfilt\<close>, whose output is linear in its input.
\<close>

definition keeps_zero :: "bandpass \<Rightarrow> bool" where
  "keeps_zero F = (\<forall>low high n. F low high (replicate n 0) = replicate n 0)"

text \<open>
  The kernel used in the concrete runs below: it returns the centred signal unchanged.
  On the zero signal it agrees with every kernel that keeps zero.
\<close>

definition pass_through :: bandpass where
  "pass_through low high x = x"

text \<open>
  Eight RR intervals of a slow, two-paced rhythm (30 beats per minute), the intervals
  between the R-peaks \<open>0, 375, 750, 1125, 1500, 2125, 2750, 3375, 4000\<close> at 250 Hz.
\<close>

definition rr_slow :: "real list" where
  "rr_slow = [1.5, 1.5, 1.5, 1.5, 2.5, 2.5, 2.5, 2.5]"







text \<open>The record that \<open>analyze\<close> returns on a flat signal.\<close>

definition flat_result :: analysis_result where
  "flat_result =
     \<lparr>classification = ''Insufficient Data'',
      confidence = 0.5,
      risk_level = ''Unknown'',
      details =
        \<lparr>error = None, heartRate = 0,
         heartRateRange = Some \<lparr>hr_min = 0, hr_max = 0\<rparr>,
         rhythm = ''Unknown'', qrsCount = Some 0,
         hrv = Some \<lparr>SDNN = 0, RMSSD = 0, pNN50 = 0\<rparr>,
         abnormalities = [],
         signalQuality =
           Some \<lparr>quality = ''Poor'', score = 0.3, std_deviation = 0, signal_range = 0\<rparr>\<rparr>,
      analysis_type = ''hybrid_ml_enhanced'',
      recommendations = Some []\<rparr>"

subsection \<open>Predicates of the proofs\<close>

text \<open>
  A run of the rules keeps this relation between two of the locals: while no finding has
  been appended the risk level is still \<open>Low\<close>. Rule 5 fires only without findings, so it
  assigns \<open>Low\<close> to a level that is \<open>Low\<close> already.
\<close>

definition findings_explain_risk :: "rule_state \<Rightarrow> bool" where
  "findings_explain_risk st = (st_abnormalities st = [] \<longrightarrow> st_risk_level st = ''Low'')"



section \<open>Properties\<close>

subsection \<open>Shapes of the intermediate results\<close>

lemma length_np_diff: "length (np_diff xs) = length xs - 1"
  by (simp add: np_diff_def)

lemma length_rr_intervals:
  "length (snd (calculate_heart_rate r_peaks sr)) =
     (if length r_peaks < 2 then 0 else length r_peaks - 1)"
  by (simp add: calculate_heart_rate_def Let_def length_np_diff)

text \<open>What a run of the \<open>try\<close> block that raised nothing has computed.\<close>

lemma analyze_body_Inr:
  assumes "analyze_body F ecg sr = Inr r"
  obtains signal_array q peaks where
    "np_array ecg = Inr signal_array"
    "assess_signal_quality signal_array = Inr q"
    "detect_qrs_pan_tompkins F ecg sr = Inr peaks"
    "signalQuality (details r) = Some q"
    "qrsCount (details r) = Some (length peaks)"
    "risk_level r =
       snd (snd (detect_arrhythmias (fst (calculate_heart_rate peaks sr))
                   (snd (calculate_heart_rate peaks sr))))"
    "confidence r =
       py_round
         (if quality q = ''Good'' \<and> length peaks > 10
          then 0.85 + (real (min (length peaks) 50) / 50) * 0.15
          else if quality q = ''Fair'' \<and> length peaks > 5
          then 0.65 + (real (min (length peaks) 50) / 50) * 0.20
          else 0.50) 3"
proof -
  from assms obtain signal_array where a: "np_array ecg = Inr signal_array"
    by (auto simp: analyze_body_def split: sum.splits)
  from assms a obtain q where q: "assess_signal_quality signal_array = Inr q"
    by (auto simp: analyze_body_def split: sum.splits)
  from assms a q obtain peaks where p: "detect_qrs_pan_tompkins F ecg sr = Inr peaks"
    by (auto simp: analyze_body_def split: sum.splits)
  from assms a q p have
    "signalQuality (details r) = Some q"
    "qrsCount (details r) = Some (length peaks)"
    "risk_level r =
       snd (snd (detect_arrhythmias (fst (calculate_heart_rate peaks sr))
                   (snd (calculate_heart_rate peaks sr))))"
    "confidence r =
       py_round
         (if quality q = ''Good'' \<and> length peaks > 10
          then 0.85 + (real (min (length peaks) 50) / 50) * 0.15
          else if quality q = ''Fair'' \<and> length peaks > 5
          then 0.65 + (real (min (length peaks) 50) / 50) * 0.20
          else 0.50) 3"
    by (auto simp: analyze_body_def Let_def split: prod.splits)
  with a q p show thesis by (rule that)
qed

subsection \<open>Too few beats\<close>

text \<open>
  Claim C9. With fewer than two RR intervals \<open>detect_arrhythmias\<close> returns the
  classification \<open>Insufficient Data\<close>, no abnormality and the risk level \<open>Unknown\<close>; and
  fewer than three R-peaks leave fewer than two intervals, so that the same holds on what
  \<open>calculate_heart_rate\<close> returns for them.
\<close>

theorem insufficient_data:
  "(length rr < 2 \<longrightarrow>
      detect_arrhythmias hr rr = (''Insufficient Data'', [], ''Unknown'')) \<and>
   (length r_peaks < 3 \<longrightarrow>
      detect_arrhythmias (fst (calculate_heart_rate r_peaks sr))
        (snd (calculate_heart_rate r_peaks sr)) = (''Insufficient Data'', [], ''Unknown''))"
proof (intro conjI impI)
  assume "length rr < 2"
  then show "detect_arrhythmias hr rr = (''Insufficient Data'', [], ''Unknown'')"
    by (simp add: detect_arrhythmias_def)
next
  assume "length r_peaks < 3"
  then have "length (snd (calculate_heart_rate r_peaks sr)) < 2"
    by (auto simp: length_rr_intervals)
  then show "detect_arrhythmias (fst (calculate_heart_rate r_peaks sr))
        (snd (calculate_heart_rate r_peaks sr)) = (''Insufficient Data'', [], ''Unknown'')"
    by (simp add: detect_arrhythmias_def)
qed

theorem insufficient_data_witness:
  "detect_arrhythmias 75 [0.8] = (''Insufficient Data'', [], ''Unknown'') \<and>
   calculate_heart_rate [100, 300] 250 = (75, [0.8]) \<and>
   detect_arrhythmias (fst (calculate_heart_rate [100, 300] 250))
        (snd (calculate_heart_rate [100, 300] 250)) = (''Insufficient Data'', [], ''Unknown'')"
  using insufficient_data [of "[0.8]" 75 "[100, 300]" 250]
  by (simp add: calculate_heart_rate_def np_diff_def np_mean_def)

subsection \<open>The values of the risk level\<close>

lemma risk_rule_rate:
  "st_risk_level st \<in> {''Low'', ''Medium'', ''High''} \<Longrightarrow>
   st_risk_level (rule_rate hr cv st) \<in> {''Low'', ''Medium'', ''High''}"
  by (simp add: rule_rate_def append_finding_def Let_def)

lemma risk_rule_afib:
  "st_risk_level st \<in> {''Low'', ''Medium'', ''High''} \<Longrightarrow>
   st_risk_level (rule_afib rr cv st) \<in> {''Low'', ''Medium'', ''High''}"
  by (simp add: rule_afib_def append_finding_def Let_def)

lemma risk_rule_pvc:
  "st_risk_level st \<in> {''Low'', ''Medium'', ''High''} \<Longrightarrow>
   st_risk_level (rule_pvc rr st) \<in> {''Low'', ''Medium'', ''High''}"
  by (simp add: rule_pvc_def append_finding_def Let_def)

lemma risk_rule_normal:
  "st_risk_level st \<in> {''Low'', ''Medium'', ''High''} \<Longrightarrow>
   st_risk_level (rule_normal hr st) \<in> {''Low'', ''Medium'', ''High''}"
  by (simp add: rule_normal_def append_finding_def Let_def)

lemma risk_after_normal:
  "st_risk_level (after_normal hr rr) \<in> {''Low'', ''Medium'', ''High''}"
  unfolding after_normal_def after_pvc_def after_afib_def after_rate_def
  by (intro risk_rule_normal risk_rule_pvc risk_rule_afib risk_rule_rate)
     (simp add: initial_state_def)

lemma risk_detect_arrhythmias:
  "snd (snd (detect_arrhythmias hr rr)) \<in> {''Low'', ''Medium'', ''High'', ''Unknown''}"
  using risk_after_normal [of hr rr]
  by (auto simp: detect_arrhythmias_def Let_def)

text \<open>
  Claim C10. Whatever the input, the \<open>risk_level\<close> of the record that \<open>analyze\<close> returns
  is one of \<open>Low\<close>, \<open>Medium\<close>, \<open>High\<close> and \<open>Unknown\<close>, never \<open>Critical\<close>; hence the test
  \<open>risk_level == "Critical" or risk_level == "High"\<close> of \<open>_generate_recommendations\<close> is
  true exactly when the level is \<open>High\<close>.
\<close>

theorem risk_level_never_critical:
  "risk_level (analyze F ecg sr) \<in> {''Low'', ''Medium'', ''High'', ''Unknown''} \<and>
   risk_level (analyze F ecg sr) \<noteq> ''Critical'' \<and>
   ((risk_level (analyze F ecg sr) = ''Critical'' \<or> risk_level (analyze F ecg sr) = ''High'')
      = (risk_level (analyze F ecg sr) = ''High''))"
proof -
  have "risk_level (analyze F ecg sr) \<in> {''Low'', ''Medium'', ''High'', ''Unknown''}"
  proof (cases "analyze_body F ecg sr")
    case (Inl e)
    then show ?thesis by (simp add: analyze_def error_result_def)
  next
    case (Inr r)
    then obtain peaks where "risk_level r =
       snd (snd (detect_arrhythmias (fst (calculate_heart_rate peaks sr))
                   (snd (calculate_heart_rate peaks sr))))"
      by (rule analyze_body_Inr)
    with Inr risk_detect_arrhythmias show ?thesis
      by (simp add: analyze_def)
  qed
  then show ?thesis by auto
qed

subsection \<open>Rounding\<close>






lemma py_round_zero: "py_round 0 nd = 0"
  by (simp add: py_round_def rint_def)

lemma py_round_half: "py_round (1 / 2) 3 = 1 / 2"
  by (simp add: py_round_def rint_def)

subsection \<open>Heart-rate variability\<close>

lemma np_diff_successive: "np_diff xs = successive_differences xs"
proof (rule nth_equalityI)
  show "length (np_diff xs) = length (successive_differences xs)"
    by (simp add: np_diff_def successive_differences_def)
next
  fix i assume "i < length (np_diff xs)"
  then have i: "i < length xs - 1" by (simp add: np_diff_def)
  then have "np_diff xs ! i = xs ! (i + 1) - xs ! i"
    by (simp add: np_diff_def nth_tl)
  with i show "np_diff xs ! i = successive_differences xs ! i"
    by (simp add: successive_differences_def)
qed

lemma np_std_population: "np_std xs = population_sd xs"
  by (simp add: np_std_def population_sd_def np_mean_def)

lemma map_ms: "map (\<lambda>x. x * 1000) rr = in_milliseconds rr"
  by (simp add: in_milliseconds_def mult.commute)

text \<open>
  Claim C8, as amended. For at least two RR intervals each metric is the quantity the
  specification names, rounded to two decimals: \<open>SDNN\<close> the population standard deviation
  of the intervals in milliseconds, \<open>RMSSD\<close> the root mean square of their successive
  differences, \<open>pNN50\<close> the percentage of these differences whose magnitude exceeds 50 ms.
  For fewer than two intervals all three are 0.
\<close>

theorem hrv_rounded:
  "(2 \<le> length rr \<longrightarrow>
      SDNN (calculate_hrv rr) = py_round (population_sd (in_milliseconds rr)) 2 \<and>
      RMSSD (calculate_hrv rr) =
        py_round (root_mean_square (successive_differences (in_milliseconds rr))) 2 \<and>
      pNN50 (calculate_hrv rr) =
        py_round (percent_exceeding 50 (successive_differences (in_milliseconds rr))) 2) \<and>
   (length rr < 2 \<longrightarrow>
      SDNN (calculate_hrv rr) = 0 \<and> RMSSD (calculate_hrv rr) = 0 \<and>
      pNN50 (calculate_hrv rr) = 0)"
proof (intro conjI impI)
  assume long: "2 \<le> length rr"
  let ?d = "successive_differences (in_milliseconds rr)"
  have d: "np_diff (map (\<lambda>x. x * 1000) rr) = ?d"
    by (simp add: map_ms np_diff_successive)
  have len: "0 < length ?d"
    using long by (simp add: successive_differences_def in_milliseconds_def)
  from long show "SDNN (calculate_hrv rr) = py_round (population_sd (in_milliseconds rr)) 2"
    by (simp add: calculate_hrv_def Let_def map_ms np_std_population)
  from long show "RMSSD (calculate_hrv rr) = py_round (root_mean_square ?d) 2"
    by (simp add: calculate_hrv_def Let_def d root_mean_square_def np_mean_def)
  from long len show "pNN50 (calculate_hrv rr) = py_round (percent_exceeding 50 ?d) 2"
    by (simp add: calculate_hrv_def Let_def d percent_exceeding_def count_true_def mult.commute)
next
  assume "length rr < 2"
  then show "SDNN (calculate_hrv rr) = 0" "RMSSD (calculate_hrv rr) = 0"
    "pNN50 (calculate_hrv rr) = 0"
    by (simp_all add: calculate_hrv_def)
qed

theorem hrv_rounded_witness:
  "2 \<le> length [1, 1.1, 1.11, 1.12 :: real] \<and>
   SDNN (calculate_hrv [1, 1.1, 1.11, 1.12]) =
     py_round (population_sd (in_milliseconds [1, 1.1, 1.11, 1.12])) 2 \<and>
   RMSSD (calculate_hrv [1, 1.1, 1.11, 1.12]) =
     py_round (root_mean_square
       (successive_differences (in_milliseconds [1, 1.1, 1.11, 1.12]))) 2 \<and>
   pNN50 (calculate_hrv [1, 1.1, 1.11, 1.12]) =
     py_round (percent_exceeding 50
       (successive_differences (in_milliseconds [1, 1.1, 1.11, 1.12]))) 2 \<and>
   length [0.8 :: real] < 2 \<and>
   SDNN (calculate_hrv [0.8]) = 0 \<and> RMSSD (calculate_hrv [0.8]) = 0 \<and>
   pNN50 (calculate_hrv [0.8]) = 0"
  using hrv_rounded [of "[1, 1.1, 1.11, 1.12]"] hrv_rounded [of "[0.8]"]
  by simp

text \<open>
  The claim as it was stated, without the rounding, fails: of the three successive
  differences 100, 10 and 10 ms one exceeds 50 ms, a third of them, and \<open>pNN50\<close> is
  33.33, not \<open>100 / 3\<close>.
\<close>

theorem hrv_unrounded_counterexample:
  "pNN50 (calculate_hrv [1, 1.1, 1.11, 1.12]) = 33.33 \<and>
   percent_exceeding 50 (successive_differences (in_milliseconds [1, 1.1, 1.11, 1.12]))
     = 100 / 3 \<and>
   pNN50 (calculate_hrv [1, 1.1, 1.11, 1.12]) \<noteq>
     percent_exceeding 50 (successive_differences (in_milliseconds [1, 1.1, 1.11, 1.12]))"
proof -
  have diffs: "np_diff (map (\<lambda>x. x * 1000) [1, 1.1, 1.11, 1.12]) = [100, 10, 10]"
    by (simp add: np_diff_def)
  have "percent_exceeding 50 [100, 10, 10] = 100 / 3"
    by (simp add: percent_exceeding_def)
  then have exact:
    "percent_exceeding 50 (successive_differences (in_milliseconds [1, 1.1, 1.11, 1.12]))
     = 100 / 3"
    using diffs by (simp add: np_diff_successive [symmetric] map_ms [symmetric])
  have rounded: "pNN50 (calculate_hrv [1, 1.1, 1.11, 1.12]) = 33.33"
    by (simp add: calculate_hrv_def Let_def np_diff_def count_true_def py_round_def rint_def)
  show ?thesis unfolding exact rounded by simp
qed

subsection \<open>The rule engine on the sample rhythms\<close>

lemma sqrt_quarter: "sqrt (1 / 4) = 1 / 2"
  by (simp add: real_sqrt_divide)

lemma mean_rr_slow: "np_mean rr_slow = 2"
  by (simp add: np_mean_def rr_slow_def)

lemma std_rr_slow: "np_std rr_slow = 1 / 2"
  by (simp add: np_std_def np_mean_def rr_slow_def power2_eq_square sqrt_quarter)

lemma cv_rr_slow: "coefficient_of_variation rr_slow = 25"
  by (simp add: coefficient_of_variation_def mean_rr_slow std_rr_slow)

lemma large_rr_slow: "large_differences rr_slow = 1"
  by (simp add: large_differences_def count_true_def np_diff_def rr_slow_def)

lemma pvc_rr_slow: "pvc_count rr_slow = 0"
  by (simp add: pvc_count_def count_true_def mean_rr_slow std_rr_slow) (simp add: rr_slow_def)

lemma after_rate_slow:
  "after_rate 30 rr_slow =
     \<lparr>st_classification = ''Sinus Bradycardia'',
      st_abnormalities = [bradycardia_finding 30], st_risk_level = ''High''\<rparr>"
  by (simp add: after_rate_def rule_rate_def initial_state_def append_finding_def)

lemma after_afib_slow:
  "after_afib 30 rr_slow =
     \<lparr>st_classification = ''Sinus Bradycardia'',
      st_abnormalities = [bradycardia_finding 30, irregular_finding 25],
      st_risk_level = ''Medium''\<rparr>"
  by (simp add: after_afib_def after_rate_slow rule_afib_def cv_rr_slow large_rr_slow append_finding_def)
     (simp add: rr_slow_def)

lemma after_pvc_slow: "after_pvc 30 rr_slow = after_afib 30 rr_slow"
  by (simp add: after_pvc_def rule_pvc_def pvc_rr_slow)

lemma after_normal_slow: "after_normal 30 rr_slow = after_afib 30 rr_slow"
  by (simp add: after_normal_def after_pvc_slow rule_normal_def after_afib_slow)







subsection \<open>The risk level along the rules\<close>

lemma explain_initial: "findings_explain_risk initial_state"
  by (simp add: findings_explain_risk_def initial_state_def)

lemma explain_rule_rate:
  "findings_explain_risk st \<Longrightarrow> findings_explain_risk (rule_rate hr cv st)"
  by (simp add: findings_explain_risk_def rule_rate_def append_finding_def Let_def)

lemma explain_rule_afib:
  "findings_explain_risk st \<Longrightarrow> findings_explain_risk (rule_afib rr cv st)"
  by (simp add: findings_explain_risk_def rule_afib_def append_finding_def Let_def)

lemma explain_rule_pvc:
  "findings_explain_risk st \<Longrightarrow> findings_explain_risk (rule_pvc rr st)"
  by (simp add: findings_explain_risk_def rule_pvc_def append_finding_def Let_def)

lemma explain_after_pvc: "findings_explain_risk (after_pvc hr rr)"
  unfolding after_pvc_def after_afib_def after_rate_def
  by (intro explain_rule_pvc explain_rule_afib explain_rule_rate explain_initial)

lemma rule_normal_keeps_risk:
  "findings_explain_risk st \<Longrightarrow> st_risk_level (rule_normal hr st) = st_risk_level st"
  by (simp add: findings_explain_risk_def rule_normal_def append_finding_def)

lemma risk_after_rate:
  "st_risk_level (after_rate hr rr) =
     (if hr < 40 then ''High'' else if hr < 60 then ''Medium''
      else if 150 < hr then ''High'' else if 100 < hr then ''Medium'' else ''Low'')"
  by (simp add: after_rate_def rule_rate_def initial_state_def append_finding_def Let_def)

lemma risk_after_afib:
  "st_risk_level (after_afib hr rr) =
     (if 20 < coefficient_of_variation rr
      then (if real (large_differences rr) > real (length rr) * 0.3 then ''High'' else ''Medium'')
      else st_risk_level (after_rate hr rr))"
  by (simp add: after_afib_def rule_afib_def append_finding_def Let_def)

lemma risk_after_pvc:
  "st_risk_level (after_pvc hr rr) =
     (if 3 < length rr \<and> 0 < pvc_count rr \<and> 10 < pvc_percentage rr then ''Medium''
      else st_risk_level (after_afib hr rr))"
  by (simp add: after_pvc_def rule_pvc_def append_finding_def Let_def)

lemma detect_risk_after_pvc:
  assumes "2 \<le> length rr"
  shows "snd (snd (detect_arrhythmias hr rr)) = st_risk_level (after_pvc hr rr)"
proof -
  have "st_risk_level (after_normal hr rr) = st_risk_level (after_pvc hr rr)"
    unfolding after_normal_def by (rule rule_normal_keeps_risk) (rule explain_after_pvc)
  with assms show ?thesis by (simp add: detect_arrhythmias_def Let_def)
qed

text \<open>
  Claim C2, as amended. Rules 1 and 2 only raise the risk level from its initial \<open>Low\<close>,
  and rule 5 leaves it as it is. Rule 3 and rule 4, when they fire, overwrite it with a
  level of their own (\<open>High\<close> for atrial fibrillation, \<open>Medium\<close> for an irregular rhythm and
  for premature contractions), whatever it was; the level returned is the last one
  assigned. The only lowering this allows is from \<open>High\<close> to \<open>Medium\<close>.
\<close>

theorem risk_last_write_wins:
  "risk_rank (st_risk_level initial_state) \<le> risk_rank (st_risk_level (after_rate hr rr)) \<and>
   st_risk_level (after_afib hr rr) =
     (if 20 < coefficient_of_variation rr
      then (if real (large_differences rr) > real (length rr) * 0.3 then ''High'' else ''Medium'')
      else st_risk_level (after_rate hr rr)) \<and>
   st_risk_level (after_pvc hr rr) =
     (if 3 < length rr \<and> 0 < pvc_count rr \<and> 10 < pvc_percentage rr then ''Medium''
      else st_risk_level (after_afib hr rr)) \<and>
   st_risk_level (after_normal hr rr) = st_risk_level (after_pvc hr rr) \<and>
   (2 \<le> length rr \<longrightarrow>
      snd (snd (detect_arrhythmias hr rr)) = st_risk_level (after_pvc hr rr)) \<and>
   (risk_rank (st_risk_level (after_pvc hr rr)) < risk_rank (st_risk_level (after_rate hr rr))
      \<longrightarrow> st_risk_level (after_rate hr rr) = ''High'' \<and>
          st_risk_level (after_pvc hr rr) = ''Medium'')"
proof (intro conjI impI)
  show "risk_rank (st_risk_level initial_state) \<le> risk_rank (st_risk_level (after_rate hr rr))"
    by (simp add: risk_after_rate risk_rank_def initial_state_def)
  show keep: "st_risk_level (after_normal hr rr) = st_risk_level (after_pvc hr rr)"
    unfolding after_normal_def by (rule rule_normal_keeps_risk) (rule explain_after_pvc)
  show "st_risk_level (after_afib hr rr) =
     (if 20 < coefficient_of_variation rr
      then (if real (large_differences rr) > real (length rr) * 0.3 then ''High'' else ''Medium'')
      else st_risk_level (after_rate hr rr))"
    by (rule risk_after_afib)
  show "st_risk_level (after_pvc hr rr) =
     (if 3 < length rr \<and> 0 < pvc_count rr \<and> 10 < pvc_percentage rr then ''Medium''
      else st_risk_level (after_afib hr rr))"
    by (rule risk_after_pvc)
next
  assume "2 \<le> length rr"
  then show "snd (snd (detect_arrhythmias hr rr)) = st_risk_level (after_pvc hr rr)"
    by (rule detect_risk_after_pvc)
next
  assume lower: "risk_rank (st_risk_level (after_pvc hr rr))
      < risk_rank (st_risk_level (after_rate hr rr))"
  have levels: "st_risk_level (after_pvc hr rr) \<in> {''Medium'', ''High'', st_risk_level (after_rate hr rr)}"
    by (simp add: risk_after_pvc risk_after_afib)
  have start: "st_risk_level (after_rate hr rr) \<in> {''Low'', ''Medium'', ''High''}"
    by (simp add: risk_after_rate)
  from lower levels start
  show "st_risk_level (after_rate hr rr) = ''High''"
    and "st_risk_level (after_pvc hr rr) = ''Medium''"
    by (auto simp: risk_rank_def)
qed

theorem risk_last_write_wins_witness:
  "risk_rank (st_risk_level initial_state) \<le> risk_rank (st_risk_level (after_rate 30 rr_slow)) \<and>
   st_risk_level (after_afib 30 rr_slow) = ''Medium'' \<and>
   st_risk_level (after_pvc 30 rr_slow) = ''Medium'' \<and>
   st_risk_level (after_normal 30 rr_slow) = ''Medium'' \<and>
   2 \<le> length rr_slow \<and>
   snd (snd (detect_arrhythmias 30 rr_slow)) = ''Medium''"
proof -
  have len: "2 \<le> length rr_slow" by (simp add: rr_slow_def)
  have "real (length rr_slow) * 0.3 = 2.4" by (simp add: rr_slow_def)
  with risk_last_write_wins [of 30 rr_slow] len show ?thesis
    by (simp add: cv_rr_slow large_rr_slow pvc_rr_slow)
qed

text \<open>
  The claim as it was stated, that no later rule lowers the level, fails on the slow
  rhythm: rule 1 assigns \<open>High\<close> (30 beats per minute), rule 3 then finds an irregular
  rhythm (the coefficient of variation is 25, one difference of eight exceeds 0.12 s) and
  assigns \<open>Medium\<close>, which is what the method returns.
\<close>

theorem risk_lowered_counterexample:
  "calculate_heart_rate [0, 375, 750, 1125, 1500, 2125, 2750, 3375, 4000] 250 = (30, rr_slow) \<and>
   st_risk_level (after_rate 30 rr_slow) = ''High'' \<and>
   st_risk_level (after_afib 30 rr_slow) = ''Medium'' \<and>
   risk_rank (st_risk_level (after_afib 30 rr_slow))
     < risk_rank (st_risk_level (after_rate 30 rr_slow)) \<and>
   detect_arrhythmias 30 rr_slow =
     (''Sinus Bradycardia'', [bradycardia_finding 30, irregular_finding 25], ''Medium'')"
proof (intro conjI)
  show "calculate_heart_rate [0, 375, 750, 1125, 1500, 2125, 2750, 3375, 4000] 250 = (30, rr_slow)"
    by (simp add: calculate_heart_rate_def np_diff_def np_mean_def rr_slow_def)
  show "st_risk_level (after_rate 30 rr_slow) = ''High''" by (simp add: after_rate_slow)
  show "st_risk_level (after_afib 30 rr_slow) = ''Medium''" by (simp add: after_afib_slow)
  show "risk_rank (st_risk_level (after_afib 30 rr_slow))
     < risk_rank (st_risk_level (after_rate 30 rr_slow))"
    by (simp add: after_afib_slow after_rate_slow risk_rank_def)
  show "detect_arrhythmias 30 rr_slow =
     (''Sinus Bradycardia'', [bradycardia_finding 30, irregular_finding 25], ''Medium'')"
    by (simp add: detect_arrhythmias_def after_normal_slow after_afib_slow) (simp add: rr_slow_def)
qed

subsection \<open>Rule 3: atrial fibrillation and irregular rhythm\<close>









subsection \<open>Constant signals through the stages\<close>

lemma np_array_Num: "np_array (map Num xs) = Inr xs"
  by (induction xs) simp_all

lemma np_mean_replicate: "0 < n \<Longrightarrow> np_mean (replicate n c) = c"
  by (simp add: np_mean_def sum_list_replicate)

lemma np_std_replicate: "np_std (replicate n c) = 0"
proof (cases "n = 0")
  case True
  then show ?thesis by (simp add: np_std_def np_mean_def)
next
  case False
  then have "map (\<lambda>x. \<bar>x - np_mean (replicate n c)\<bar>\<^sup>2) (replicate n c) = replicate n 0"
    by (simp add: np_mean_replicate)
  with False show ?thesis by (simp add: np_std_def np_mean_replicate)
qed

lemma funpow_max_same: "(max c ^^ k) (c::real) = c"
  by (induction k) simp_all

lemma funpow_min_same: "(min c ^^ k) (c::real) = c"
  by (induction k) simp_all

lemma amax_replicate: "0 < n \<Longrightarrow> amax (replicate n c) = c"
  by (cases n) (simp_all add: amax_def funpow_max_same)

lemma amin_replicate: "0 < n \<Longrightarrow> amin (replicate n c) = c"
  by (cases n) (simp_all add: amin_def funpow_min_same)

lemma quality_flat:
  "0 < n \<Longrightarrow>
   assess_signal_quality (replicate n c) =
     Inr \<lparr>quality = ''Poor'', score = 0.3, std_deviation = 0, signal_range = 0\<rparr>"
  by (simp add: assess_signal_quality_def np_max_def np_min_def amax_replicate amin_replicate
      np_std_replicate py_round_zero)

lemma preprocess_flat:
  assumes "15 < n" and "30 < sr"
  shows "preprocess F (replicate n (Num c)) sr =
           Inr (F (5 / (real_of_int sr / 2)) (15 / (real_of_int sr / 2)) (replicate n 0))"
proof -
  have arr: "np_array (replicate n (Num c)) = Inr (replicate n c)"
    using np_array_Num [of "replicate n c"] by simp
  from assms(2) have "butter_accepts (5 / (real_of_int sr / 2)) (15 / (real_of_int sr / 2))"
    by (simp add: butter_accepts_def field_simps)
  with assms show ?thesis
    by (simp add: preprocess_def arr Let_def np_mean_replicate filtfilt_padlen_def)
qed

lemma map2_diff_replicate:
  "map2 (\<lambda>a b. b - a) (c # replicate k c) (replicate k (c::real)) = replicate k 0"
  by (induction k) simp_all

lemma np_diff_replicate: "np_diff (replicate n c) = replicate (n - 1) 0"
  by (cases n) (simp_all add: np_diff_def map2_diff_replicate)

lemma convolve_full_zero:
  "convolve_full (replicate m 0) v = replicate (m + length v - 1) 0"
proof -
  have "(\<Sum>j\<leftarrow>[0..<m]. if j \<le> k \<and> k - j < length v
            then replicate m 0 ! j * v ! (k - j) else 0) = (0::real)" for k
  proof -
    have "(\<Sum>j\<leftarrow>[0..<m]. if j \<le> k \<and> k - j < length v
            then replicate m 0 ! j * v ! (k - j) else 0) = (\<Sum>j\<leftarrow>[0..<m]. (0::real))"
      by (rule arg_cong [where f = sum_list], rule map_cong) auto
    also have "\<dots> = 0" by simp
    finally show ?thesis .
  qed
  then show ?thesis
    by (simp add: convolve_full_def map_replicate_const)
qed

lemma np_convolve_same_zero:
  assumes "0 < m" and "v \<noteq> []"
  shows "np_convolve_same (replicate m 0) v = Inr (replicate (max m (length v)) 0)"
proof -
  have "0 < l \<Longrightarrow> (min m l - 1) div 2 + max m l \<le> m + l - 1" for l :: nat
    using assms(1) by (cases "m \<le> l") (simp_all add: min_def max_def)
  with assms(2) have "(min m (length v) - 1) div 2 + max m (length v) \<le> m + length v - 1"
    by blast
  then have "max m (length v) \<le> m + length v - 1 - (min m (length v) - 1) div 2"
    by linarith
  then have "take (max m (length v))
     (drop ((min m (length v) - 1) div 2) (replicate (m + length v - 1) (0::real)))
      = replicate (max m (length v)) 0"
    by (simp add: min_absorb1)
  with assms show ?thesis
    by (simp add: np_convolve_same_def convolve_full_zero)
qed

lemma local_maxima_flat: "local_maxima_from (replicate k c) i = []"
proof (induction "replicate k c" i rule: local_maxima_from.induct)
  case (1 i)
  show ?case
  proof (cases "i < k - 1")
    case True
    then have "\<not> replicate k c ! (i - 1) < replicate k c ! i" by simp
    with True 1(3) show ?thesis
      by (simp add: local_maxima_from.simps [of "replicate k c" i])
  next
    case False
    then show ?thesis
      by (simp add: local_maxima_from.simps [of "replicate k c" i])
  qed
qed

lemma find_peaks_flat: "1 \<le> d \<Longrightarrow> find_peaks (replicate k c) h d = Inr []"
  by (simp add: find_peaks_def local_maxima_1d_def local_maxima_flat np_mask_def)

lemma detect_qrs_flat:
  assumes "keeps_zero F" and "15 < n" and "30 < sr"
  shows "detect_qrs_pan_tompkins F (replicate n (Num c)) sr = Inr []"
proof -
  let ?w = "py_int (0.15 * real_of_int sr)"
  let ?k = "max (n - 1) (nat ?w)"
  from assms(3) have w: "0 < ?w" by (simp add: py_int_def)
  from assms(3) have d: "1 \<le> py_int (0.2 * real_of_int sr)" by (simp add: py_int_def)
  from assms(1) have filtered:
    "F (5 / (real_of_int sr / 2)) (15 / (real_of_int sr / 2)) (replicate n 0) = replicate n 0"
    by (simp add: keeps_zero_def)
  from w have ones: "np_ones_over ?w = Inr (replicate (nat ?w) (1 / real_of_int ?w))"
    by (simp add: np_ones_over_def)
  from w assms(2) have conv:
    "np_convolve_same (replicate (n - 1) 0) (replicate (nat ?w) (1 / real_of_int ?w))
       = Inr (replicate ?k 0)"
    using np_convolve_same_zero [of "n - 1" "replicate (nat ?w) (1 / real_of_int ?w)"] by simp
  from assms(2) have top: "np_max (replicate ?k 0) = Inr 0"
    by (simp add: np_max_def amax_replicate)
  have squared: "map (\<lambda>d. d\<^sup>2) (replicate (n - 1) (0::real)) = replicate (n - 1) 0"
    by simp
  show ?thesis
    unfolding detect_qrs_pan_tompkins_def preprocess_flat [OF assms(2,3)] filtered
    by (simp only: sum.case Let_def np_diff_replicate squared ones conv top
        find_peaks_flat [OF d])
qed

lemma analyze_body_flat:
  assumes "keeps_zero F" and "15 < n" and "30 < sr"
  shows "analyze_body F (replicate n (Num c)) sr = Inr flat_result"
proof -
  have arr: "np_array (replicate n (Num c)) = Inr (replicate n c)"
    using np_array_Num [of "replicate n c"] by simp
  from assms(2) have q: "assess_signal_quality (replicate n c) =
     Inr \<lparr>quality = ''Poor'', score = 0.3, std_deviation = 0, signal_range = 0\<rparr>"
    by (simp add: quality_flat)
  have hr: "calculate_heart_rate [] sr = (0, [])"
    by (simp add: calculate_heart_rate_def)
  have hrv: "calculate_hrv [] = \<lparr>SDNN = 0, RMSSD = 0, pNN50 = 0\<rparr>"
    by (simp add: calculate_hrv_def)
  have rules: "detect_arrhythmias 0 [] = (''Insufficient Data'', [], ''Unknown'')"
    by (simp add: detect_arrhythmias_def)
  have advice: "generate_recommendations ''Insufficient Data'' ''Unknown'' 0 = []"
    by (simp add: generate_recommendations_def)
  show ?thesis
    by (simp add: analyze_body_def arr q detect_qrs_flat [OF assms] hr hrv rules advice
        py_round_zero py_round_half flat_result_def)
qed


lemma keeps_zero_pass_through: "keeps_zero pass_through"
  by (simp add: keeps_zero_def pass_through_def)

subsection \<open>What the preprocessor rejects\<close>

lemma np_array_error: "np_array ecg = Inl e \<Longrightarrow> e = ValueError"
proof (induction ecg arbitrary: e)
  case Nil
  then show ?case by simp
next
  case (Cons a ecg)
  then show ?case by (cases a) (auto split: sum.splits)
qed

lemma np_array_length: "np_array ecg = Inr xs \<Longrightarrow> length xs = length ecg"
proof (induction ecg arbitrary: xs)
  case Nil
  then show ?case by simp
next
  case (Cons a ecg)
  then show ?case by (cases a) (auto split: sum.splits)
qed

lemma butter_accepts_iff:
  "sr \<noteq> 0 \<Longrightarrow>
   butter_accepts (5 / (real_of_int sr / 2)) (15 / (real_of_int sr / 2)) = (30 < sr)"
  by (cases "0 < sr") (auto simp: butter_accepts_def field_simps zero_less_divide_iff)

lemma preprocess_cases:
  "preprocess F ecg sr =
     (case np_array ecg of Inl e \<Rightarrow> Inl ValueError
      | Inr xs \<Rightarrow>
          if sr = 0 then Inl ZeroDivisionError
          else if sr \<le> 30 \<or> length ecg \<le> 15 then Inl ValueError
          else Inr (F (5 / (real_of_int sr / 2)) (15 / (real_of_int sr / 2))
                     (map (\<lambda>x. x - np_mean xs) xs)))"
proof (cases "np_array ecg")
  case (Inl e)
  with np_array_error [OF Inl] show ?thesis by (simp add: preprocess_def)
next
  case (Inr xs)
  note len = np_array_length [OF Inr]
  show ?thesis
  proof (cases "sr = 0")
    case True
    with Inr show ?thesis by (simp add: preprocess_def)
  next
    case False
    with Inr len butter_accepts_iff [OF False] show ?thesis
      by (auto simp: preprocess_def Let_def filtfilt_padlen_def)
  qed
qed



lemma analyze_body_rejects:
  assumes "sr \<le> 30 \<or> length ecg \<le> 15"
  shows "\<exists>e. analyze_body F ecg sr = Inl e"
proof (cases "np_array ecg")
  case (Inl e)
  then show ?thesis by (simp add: analyze_body_def)
next
  case arr: (Inr xs)
  show ?thesis
  proof (cases "assess_signal_quality xs")
    case (Inl e)
    with arr show ?thesis by (simp add: analyze_body_def)
  next
    case (Inr q)
    from assms arr have "\<exists>e. preprocess F ecg sr = Inl e"
      by (auto simp: preprocess_cases)
    then obtain e where "detect_qrs_pan_tompkins F ecg sr = Inl e"
      by (auto simp: detect_qrs_pan_tompkins_def)
    with arr Inr show ?thesis by (simp add: analyze_body_def)
  qed
qed


subsection \<open>The handler of \<open>analyze\<close>\<close>

lemma np_array_malformed: "NotNumeric \<in> set ecg \<Longrightarrow> np_array ecg = Inl ValueError"
proof (induction ecg)
  case Nil
  then show ?case by simp
next
  case (Cons a ecg)
  show ?case
  proof (cases a)
    case (Num v)
    with Cons show ?thesis by simp
  next
    case NotNumeric
    then show ?thesis by simp
  qed
qed

text \<open>
  Claim C4. \<open>analyze\<close> is a total function into records: it returns what the \<open>try\<close>
  block returns, and whenever a step of the block raises an exception \<open>e\<close> it returns the
  record of the handler, with the classification \<open>Analysis Error\<close>, confidence 0, the risk
  level \<open>Unknown\<close>, the message of \<open>e\<close> under \<open>details.error\<close> and no abnormality. The
  inputs on which a step raises include every trace with a sample that is not a number,
  every trace of at most 15 samples (the empty one among them) and every sample rate of
  at most 30 Hz.
\<close>

theorem analyze_catches:
  "(analyze_body F ecg sr = Inl e \<longrightarrow>
      analyze F ecg sr = error_result e \<and>
      classification (analyze F ecg sr) = ''Analysis Error'' \<and>
      confidence (analyze F ecg sr) = 0 \<and>
      risk_level (analyze F ecg sr) = ''Unknown'' \<and>
      error (details (analyze F ecg sr)) = Some e \<and>
      abnormalities (details (analyze F ecg sr)) = []) \<and>
   (analyze_body F ecg sr = Inr r \<longrightarrow> analyze F ecg sr = r) \<and>
   (NotNumeric \<in> set ecg \<or> sr \<le> 30 \<or> length ecg \<le> 15 \<longrightarrow>
      (\<exists>raised. analyze_body F ecg sr = Inl raised) \<and>
      classification (analyze F ecg sr) = ''Analysis Error'')"
proof (intro conjI impI)
  assume "analyze_body F ecg sr = Inl e"
  then show "analyze F ecg sr = error_result e" by (simp add: analyze_def)
  then show "classification (analyze F ecg sr) = ''Analysis Error''"
    and "confidence (analyze F ecg sr) = 0"
    and "risk_level (analyze F ecg sr) = ''Unknown''"
    and "error (details (analyze F ecg sr)) = Some e"
    and "abnormalities (details (analyze F ecg sr)) = []"
    by (simp_all add: error_result_def)
next
  assume "analyze_body F ecg sr = Inr r"
  then show "analyze F ecg sr = r" by (simp add: analyze_def)
next
  assume bad: "NotNumeric \<in> set ecg \<or> sr \<le> 30 \<or> length ecg \<le> 15"
  show raised: "\<exists>raised. analyze_body F ecg sr = Inl raised"
  proof (cases "NotNumeric \<in> set ecg")
    case True
    then show ?thesis by (simp add: analyze_body_def np_array_malformed)
  next
    case False
    with bad show ?thesis by (intro analyze_body_rejects) blast
  qed
  then show "classification (analyze F ecg sr) = ''Analysis Error''"
    by (auto simp: analyze_def error_result_def)
qed

theorem analyze_catches_witness:
  "analyze_body pass_through [Num 1, NotNumeric] 250 = Inl ValueError \<and>
   analyze pass_through [Num 1, NotNumeric] 250 = error_result ValueError \<and>
   classification (analyze pass_through [Num 1, NotNumeric] 250) = ''Analysis Error'' \<and>
   confidence (analyze pass_through [Num 1, NotNumeric] 250) = 0 \<and>
   risk_level (analyze pass_through [Num 1, NotNumeric] 250) = ''Unknown'' \<and>
   error (details (analyze pass_through [Num 1, NotNumeric] 250)) = Some ValueError \<and>
   abnormalities (details (analyze pass_through [Num 1, NotNumeric] 250)) = [] \<and>
   analyze_body pass_through (replicate 16 (Num 1)) 250 = Inr flat_result \<and>
   analyze pass_through (replicate 16 (Num 1)) 250 = flat_result"
proof -
  have raised: "analyze_body pass_through [Num 1, NotNumeric] 250 = Inl ValueError"
    by (simp add: analyze_body_def)
  have returned: "analyze_body pass_through (replicate 16 (Num 1)) 250 = Inr flat_result"
    using analyze_body_flat [OF keeps_zero_pass_through, of 16 250 1] by simp
  from analyze_catches [of pass_through "[Num 1, NotNumeric]" 250 ValueError]
    analyze_catches [of pass_through "replicate 16 (Num 1)" 250 _ flat_result]
    raised returned
  show ?thesis by blast
qed

subsection \<open>Flat signals\<close>




subsection \<open>The confidence\<close>



subsection \<open>The peaks that \<open>find_peaks\<close> keeps\<close>













subsection \<open>The spacing of the R-peaks\<close>



















end
